theory Spec2Isabelle
  imports Main "HOL-Library.Word"
begin

unbundle bit_operations_syntax

section \<open>Python values used by the model validation module\<close>

text \<open>
  The module \<^verbatim>\<open>cortex/lib/model/validation.py\<close> declares two namedtuple classes
  (\<^verbatim>\<open>TemplatePlaceholder\<close>, \<^verbatim>\<open>GenericPlaceholder\<close>), one plain class
  (\<^verbatim>\<open>PlaceholderGroup\<close>), five module-level placeholder constants, the pattern
  table \<^verbatim>\<open>model_template\<close> and four functions.

  A namedtuple instance is the tuple of its fields. \<^verbatim>\<open>TemplatePlaceholder\<close> has the
  single field \<^verbatim>\<open>placeholder\<close>; \<^verbatim>\<open>GenericPlaceholder\<close> has the fields
  \<^verbatim>\<open>placeholder\<close> and \<^verbatim>\<open>value\<close>.
\<close>

datatype TemplatePlaceholder = TemplatePlaceholder (placeholder: string)

datatype 'v GenericPlaceholder = GenericPlaceholder (gplaceholder: string) (gvalue: 'v)

text \<open>
  The Python objects that occur in the module: \<^verbatim>\<open>None\<close>, strings, integers, plain
  tuples, the two placeholder classes, \<^verbatim>\<open>PlaceholderGroup\<close> (its \<^verbatim>\<open>parts\<close>), and
  dict and set displays. A dict or set display is kept as the list of its entries in
  the order in which the source writes them.
\<close>

datatype pyval =
    PNone
  | PStr string
  | PInt int
  | PTuple "pyval list"
  | PTemplate TemplatePlaceholder
  | PGeneric "pyval GenericPlaceholder"
  | PlaceholderGroup "pyval list"
  | PDict "(pyval \<times> pyval) list"
  | PSet "pyval list"

text \<open>
  Modelled from the spec: the predictor type enum (\<^verbatim>\<open>PredictorType\<close> and the constants
  \<^verbatim>\<open>PythonPredictorType\<close>, \<^verbatim>\<open>TensorFlowPredictorType\<close>, \<^verbatim>\<open>ONNXPredictorType\<close>) is
  imported from \<^verbatim>\<open>cortex.lib.api\<close>, which is not among the sources. The spec describes it
  as a closed set of string tags with the three supported predictor types; a tag outside
  the three is \<open>OtherPredictorType\<close>.
\<close>

datatype PredictorType =
    PythonPredictorType
  | TensorFlowPredictorType
  | ONNXPredictorType
  | OtherPredictorType string

datatype error = TypeError | KeyError PredictorType

subsection \<open>String primitives\<close>

text \<open>\<^verbatim>\<open>isinstance(v, str)\<close>\<close>

definition is_str :: "pyval \<Rightarrow> bool" where
  "is_str v = (case v of PStr s \<Rightarrow> True | _ \<Rightarrow> False)"

text \<open>
  \<^verbatim>\<open>s + v\<close> for a string \<open>s\<close>: a \<^verbatim>\<open>TypeError\<close> unless \<open>v\<close> is a string too. None of
  the values of \<open>pyval\<close> defines \<^verbatim>\<open>__radd__\<close>; an object of a class that does (such as
  \<^verbatim>\<open>collections.UserString\<close>) is outside the model.
\<close>

definition str_concat :: "string \<Rightarrow> pyval \<Rightarrow> error + string" where
  "str_concat s v = (case v of PStr t \<Rightarrow> Inr (s @ t) | _ \<Rightarrow> Inl TypeError)"

text \<open>\<^verbatim>\<open>str.lstrip(chars)\<close>, \<^verbatim>\<open>str.rstrip(chars)\<close>, \<^verbatim>\<open>str.strip(chars)\<close>: \<open>chars\<close> is a
  set of characters, all of whose leading (trailing) occurrences are removed.\<close>

definition lstrip :: "string \<Rightarrow> string \<Rightarrow> string" where
  "lstrip chars s = dropWhile (\<lambda>c. c \<in> set chars) s"

definition rstrip :: "string \<Rightarrow> string \<Rightarrow> string" where
  "rstrip chars s = rev (dropWhile (\<lambda>c. c \<in> set chars) (rev s))"

definition strip :: "string \<Rightarrow> string \<Rightarrow> string" where
  "strip chars s = rstrip chars (lstrip chars s)"

text \<open>\<^verbatim>\<open>s.rfind(c)\<close> for a one-character separator: the highest index of \<open>c\<close>, or \<open>-1\<close>.\<close>

definition rfind :: "string \<Rightarrow> char \<Rightarrow> int" where
  "rfind s c =
     (if c \<in> set s then int (length s) - 1 - int (length (takeWhile (\<lambda>x. x \<noteq> c) (rev s)))
      else - 1)"

section \<open>Placeholder types\<close>

subsection \<open>TemplatePlaceholder\<close>

text \<open>
  \<^verbatim>\<open>
  def __new__(cls, placeholder):
      return super(cls, TemplatePlaceholder).__new__(cls, "<" + placeholder + ">")
  \<close>
\<close>

definition TemplatePlaceholder_new :: "pyval \<Rightarrow> error + TemplatePlaceholder" where
  "TemplatePlaceholder_new placeholder' =
     (case str_concat ''<'' placeholder' of
        Inl e \<Rightarrow> Inl e
      | Inr s \<Rightarrow> Inr (TemplatePlaceholder (s @ ''>'')))"

definition TemplatePlaceholder_str :: "TemplatePlaceholder \<Rightarrow> string" where
  "TemplatePlaceholder_str self = placeholder self"

definition TemplatePlaceholder_repr :: "TemplatePlaceholder \<Rightarrow> string" where
  "TemplatePlaceholder_repr self = placeholder self"

text \<open>The property \<^verbatim>\<open>type\<close>: \<^verbatim>\<open>str(self.placeholder).strip("<>")\<close>.\<close>

definition TemplatePlaceholder_type :: "TemplatePlaceholder \<Rightarrow> string" where
  "TemplatePlaceholder_type self = strip ''<>'' (placeholder self)"

text \<open>
  The fields of an object that is a tuple (a plain tuple or an instance of one of the two
  namedtuple classes); \<open>None\<close> for every other object.
\<close>

fun tuple_items :: "pyval \<Rightarrow> pyval list option" where
  "tuple_items (PTuple xs) = Some xs"
| "tuple_items (PTemplate t) = Some [PStr (placeholder t)]"
| "tuple_items (PGeneric g) = Some [PStr (gplaceholder g), gvalue g]"
| "tuple_items _ = None"

text \<open>
  \<^verbatim>\<open>TemplatePlaceholder\<close> defines no \<^verbatim>\<open>__eq__\<close>: it inherits the comparison of tuples.
  The other operand has to be a tuple of the same length whose items are equal; the only
  item here is the string \<^verbatim>\<open>placeholder\<close>, which equals a string of the same
  characters and nothing else.
\<close>

definition TemplatePlaceholder_eq :: "TemplatePlaceholder \<Rightarrow> pyval \<Rightarrow> bool" where
  "TemplatePlaceholder_eq self other =
     (case tuple_items other of
        None \<Rightarrow> False
      | Some ys \<Rightarrow> ys = [PStr (placeholder self)])"

text \<open>The expression \<^verbatim>\<open>TemplatePlaceholder(k).type\<close>.\<close>

definition TemplatePlaceholder_new_type :: "pyval \<Rightarrow> error + string" where
  "TemplatePlaceholder_new_type k =
     (case TemplatePlaceholder_new k of
        Inl e \<Rightarrow> Inl e
      | Inr t \<Rightarrow> Inr (TemplatePlaceholder_type t))"

subsection \<open>GenericPlaceholder\<close>

text \<open>
  \<^verbatim>\<open>
  def __new__(cls, value):
      return super(cls, GenericPlaceholder).__new__(cls, "<generic>", value)
  \<close>
  No step of the constructor can raise; the result type keeps the error alternative so
  that both constructors are read the same way.
\<close>

definition GenericPlaceholder_new :: "pyval \<Rightarrow> error + pyval GenericPlaceholder" where
  "GenericPlaceholder_new v = Inr (GenericPlaceholder ''<generic>'' v)"

text \<open>
  \<^verbatim>\<open>
  def __eq__(self, other) -> bool:
      if isinstance(other, GenericPlaceholder):
          return self.placeholder == other.placeholder
      return False
  \<close>
\<close>

definition GenericPlaceholder_eq :: "pyval GenericPlaceholder \<Rightarrow> pyval \<Rightarrow> bool" where
  "GenericPlaceholder_eq self other =
     (case other of
        PGeneric g \<Rightarrow> gplaceholder self = gplaceholder g
      | _ \<Rightarrow> False)"

definition isinstance_GenericPlaceholder :: "pyval \<Rightarrow> bool" where
  "isinstance_GenericPlaceholder v = (case v of PGeneric g \<Rightarrow> True | _ \<Rightarrow> False)"

definition GenericPlaceholder_type :: "pyval GenericPlaceholder \<Rightarrow> string" where
  "GenericPlaceholder_type self = strip ''<>'' (gplaceholder self)"

subsection \<open>Module-level placeholder constants\<close>

definition IntegerPlaceholder :: TemplatePlaceholder where
  "IntegerPlaceholder = projr (TemplatePlaceholder_new (PStr ''integer''))"

definition AnyPlaceholder :: TemplatePlaceholder where
  "AnyPlaceholder = projr (TemplatePlaceholder_new (PStr ''any''))"

definition SinglePlaceholder :: TemplatePlaceholder where
  "SinglePlaceholder = projr (TemplatePlaceholder_new (PStr ''single''))"

definition ExclAlternativePlaceholder :: TemplatePlaceholder where
  "ExclAlternativePlaceholder = projr (TemplatePlaceholder_new (PStr ''exclusive''))"

definition UniquePlaceholder :: TemplatePlaceholder where
  "UniquePlaceholder = projr (TemplatePlaceholder_new (PStr ''unique''))"

text \<open>A literal \<^verbatim>\<open>GenericPlaceholder("...")\<close> inside the pattern table.\<close>

definition Generic :: "string \<Rightarrow> pyval" where
  "Generic s = PGeneric (projr (GenericPlaceholder_new (PStr s)))"

section \<open>Pattern registry\<close>

text \<open>The dict \<^verbatim>\<open>model_template\<close>, entry by entry as the source writes it.\<close>

definition model_template :: "(PredictorType \<times> pyval) list" where
  "model_template =
     [(PythonPredictorType,
         PDict [(PTemplate IntegerPlaceholder, PTemplate AnyPlaceholder)]),
      (TensorFlowPredictorType,
         PDict [(PTemplate IntegerPlaceholder,
           PDict [(PTemplate AnyPlaceholder, PNone),
                  (Generic ''saved_model.pb'', PNone),
                  (Generic ''variables'',
                     PSet [Generic ''variables.index'',
                           PlaceholderGroup
                             [Generic ''variables.data-00000-of-'', PTemplate AnyPlaceholder],
                           PTemplate AnyPlaceholder])])]),
      (ONNXPredictorType,
         PDict [(PTemplate IntegerPlaceholder,
                   PSet [PlaceholderGroup [PTemplate SinglePlaceholder, Generic ''.onnx'']]),
                (PlaceholderGroup
                   [PTemplate ExclAlternativePlaceholder, PTemplate SinglePlaceholder,
                    Generic ''.onnx''],
                 PNone)])]"

text \<open>\<^verbatim>\<open>model_template[predictor_type]\<close>: a \<^verbatim>\<open>KeyError\<close> when the key is absent.\<close>

definition getitem :: "(PredictorType \<times> pyval) list \<Rightarrow> PredictorType \<Rightarrow> error + pyval" where
  "getitem d k = (case map_of d k of None \<Rightarrow> Inl (KeyError k) | Some v \<Rightarrow> Inr v)"

definition registered :: "PredictorType \<Rightarrow> bool" where
  "registered predictor_type = (predictor_type \<in> set (map fst model_template))"

text \<open>
  \<^verbatim>\<open>
  def dirs_model_pattern(predictor_type):
      return {UniquePlaceholder: model_template[predictor_type]}

  def model_pattern(predictor_type):
      return model_template[predictor_type]
  \<close>
  The subscription is evaluated before the enclosing dict display is built, so its
  \<^verbatim>\<open>KeyError\<close> leaves the function before any dict exists.
\<close>

definition dirs_model_pattern :: "PredictorType \<Rightarrow> error + pyval" where
  "dirs_model_pattern predictor_type =
     (case getitem model_template predictor_type of
        Inl e \<Rightarrow> Inl e
      | Inr v \<Rightarrow> Inr (PDict [(PTemplate UniquePlaceholder, v)]))"

definition model_pattern :: "PredictorType \<Rightarrow> error + pyval" where
  "model_pattern predictor_type = getitem model_template predictor_type"

text \<open>
  \<^verbatim>\<open>len(v)\<close>: the number of entries of a dict or set, of items of a tuple, of characters of
  a string; \<^verbatim>\<open>PlaceholderGroup.__len__\<close> is \<^verbatim>\<open>len(self.parts)\<close>; \<^verbatim>\<open>None\<close> and integers
  have no length.
\<close>

fun py_len :: "pyval \<Rightarrow> error + nat" where
  "py_len (PDict es) = Inr (length es)"
| "py_len (PSet xs) = Inr (length xs)"
| "py_len (PTuple xs) = Inr (length xs)"
| "py_len (PStr s) = Inr (length s)"
| "py_len (PTemplate t) = Inr 1"
| "py_len (PGeneric g) = Inr 2"
| "py_len (PlaceholderGroup parts) = Inr (length parts)"
| "py_len PNone = Inl TypeError"
| "py_len (PInt n) = Inl TypeError"

definition non_empty :: "pyval \<Rightarrow> bool" where
  "non_empty v = (case py_len v of Inl e \<Rightarrow> False | Inr n \<Rightarrow> 0 < n)"

section \<open>Tree builders\<close>

text \<open>
  \<^verbatim>\<open>os.path.dirname\<close> (posixpath):
  \<^verbatim>\<open>
  i = p.rfind(sep) + 1
  head = p[:i]
  if head and head != sep*len(head):
      head = head.rstrip(sep)
  return head
  \<close>
\<close>

definition dirname :: "string \<Rightarrow> string" where
  "dirname p =
     (let i = rfind p CHR ''/'' + 1;
          head = take (nat i) p
      in if head \<noteq> [] \<and> head \<noteq> replicate (length head) CHR ''/''
         then rstrip ''/'' head else head)"

text \<open>
  Every evaluation of the display \<^verbatim>\<open>{}\<close> creates a new dict object. The objects created by
  the builders live in a store; a reference is the position of the object in the store.
\<close>

type_synonym ref = nat

type_synonym store = "pyval list"

definition new_dict :: "store \<Rightarrow> ref \<times> store" where
  "new_dict h = (length h, h @ [PDict []])"

definition deref :: "store \<Rightarrow> ref \<Rightarrow> pyval option" where
  "deref h r = (if r < length h then Some (h ! r) else None)"

text \<open>
  \<^verbatim>\<open>
  def models_tree_from_s3_top_paths(s3_top_paths, predictor_type):
      for s3_top_path in s3_top_paths:
          model_name = os.path.dirname(s3_top_path)
      return {}
  \<close>
  The loop only rebinds the local \<^verbatim>\<open>model_name\<close>, unbound before the first iteration.
\<close>

fun s3_top_paths_loop :: "string option \<Rightarrow> string list \<Rightarrow> string option" where
  "s3_top_paths_loop model_name [] = model_name"
| "s3_top_paths_loop model_name (s3_top_path # rest) =
     s3_top_paths_loop (Some (dirname s3_top_path)) rest"

definition models_tree_from_s3_top_paths ::
  "string list \<Rightarrow> PredictorType \<Rightarrow> store \<Rightarrow> ref \<times> store" where
  "models_tree_from_s3_top_paths s3_top_paths predictor_type h =
     (let model_name = s3_top_paths_loop None s3_top_paths
      in new_dict h)"

text \<open>
  \<^verbatim>\<open>
  def models_tree_from_s3_path(s3_path, predictor_type):
      return {}
  \<close>
\<close>

definition models_tree_from_s3_path ::
  "string list \<Rightarrow> PredictorType \<Rightarrow> store \<Rightarrow> ref \<times> store" where
  "models_tree_from_s3_path s3_path predictor_type h = new_dict h"

text \<open>The object a call returned, read in the store the call left behind.\<close>

definition returned :: "ref \<times> store \<Rightarrow> pyval option" where
  "returned r = deref (snd r) (fst r)"

subsection \<open>Placeholder objects and their identity\<close>

text \<open>
  The call \<^verbatim>\<open>TemplatePlaceholder(k)\<close> runs \<^verbatim>\<open>__new__\<close>, whose \<^verbatim>\<open>tuple.__new__\<close> creates a
  new tuple object on every call; the class keeps no table of instances. The object is
  placed in the store and the call returns its reference.
\<close>

definition allocate :: "store \<Rightarrow> pyval \<Rightarrow> ref \<times> store" where
  "allocate h v = (length h, h @ [v])"

definition TemplatePlaceholder_call :: "pyval \<Rightarrow> store \<Rightarrow> error + ref \<times> store" where
  "TemplatePlaceholder_call k h =
     (case TemplatePlaceholder_new k of
        Inl e \<Rightarrow> Inl e
      | Inr t \<Rightarrow> Inr (allocate h (PTemplate t)))"

text \<open>\<^verbatim>\<open>a is b\<close>: the two references denote the same object.\<close>

definition py_is :: "ref \<Rightarrow> ref \<Rightarrow> bool" where
  "py_is a b = (a = b)"

text \<open>\<^verbatim>\<open>a == b\<close> for references, where \<open>a\<close> refers to a template placeholder.\<close>

definition TemplatePlaceholder_eq_at :: "store \<Rightarrow> ref \<Rightarrow> ref \<Rightarrow> bool" where
  "TemplatePlaceholder_eq_at h a b =
     (case deref h a of
        Some (PTemplate t) \<Rightarrow>
          (case deref h b of
             Some v \<Rightarrow> TemplatePlaceholder_eq t v
           | None \<Rightarrow> False)
      | _ \<Rightarrow> False)"

subsection \<open>The tree builder as the specification words it\<close>

text \<open>
  The specification's Path-List Tree Builder: every segment of a path becomes a key of a
  mapping, the final segment maps to the leaf marker \<^verbatim>\<open>None\<close>, paths that share a prefix
  are merged into one branch, and a duplicate path adds nothing. These definitions follow
  the specification's text, not the source.
\<close>

fun spec_split :: "char \<Rightarrow> string \<Rightarrow> string list" where
  "spec_split sep [] = [[]]"
| "spec_split sep (c # cs) =
     (if c = sep then [] # spec_split sep cs
      else (case spec_split sep cs of
              [] \<Rightarrow> [[c]]
            | w # ws \<Rightarrow> (c # w) # ws))"

fun spec_put :: "pyval \<Rightarrow> pyval \<Rightarrow> (pyval \<times> pyval) list \<Rightarrow> (pyval \<times> pyval) list" where
  "spec_put k v [] = [(k, v)]"
| "spec_put k v ((k', v') # es) = (if k = k' then (k, v) # es else (k', v') # spec_put k v es)"

fun spec_insert :: "string list \<Rightarrow> (pyval \<times> pyval) list \<Rightarrow> (pyval \<times> pyval) list" where
  "spec_insert [] es = es"
| "spec_insert [seg] es =
     (case map_of es (PStr seg) of
        None \<Rightarrow> spec_put (PStr seg) PNone es
      | Some v \<Rightarrow> es)"
| "spec_insert (seg # rest) es =
     (case map_of es (PStr seg) of
        Some (PDict sub) \<Rightarrow> spec_put (PStr seg) (PDict (spec_insert rest sub)) es
      | _ \<Rightarrow> spec_put (PStr seg) (PDict (spec_insert rest [])) es)"

definition spec_models_tree :: "string list \<Rightarrow> pyval" where
  "spec_models_tree paths = PDict (foldl (\<lambda>es p. spec_insert (spec_split CHR ''/'' p) es) [] paths)"

section \<open>Hashing\<close>

text \<open>
  \<^verbatim>\<open>GenericPlaceholder.__hash__\<close> is \<^verbatim>\<open>hash((self.placeholder, self.value))\<close>: the hash of
  a two-item tuple. The hash of a tuple is the one of CPython 3.8 and later on a 64-bit
  platform (\<^verbatim>\<open>tuplehash\<close> in \<^verbatim>\<open>Objects/tupleobject.c\<close>), on unsigned 64-bit words:
  \<^verbatim>\<open>
  acc = _PyHASH_XXPRIME_5;
  for (i = 0; i < len; i++) {
      lane = PyObject_Hash(item[i]);
      if (lane == (Py_uhash_t)-1) return -1;
      acc += lane * _PyHASH_XXPRIME_2;
      acc = _PyHASH_XXROTATE(acc);
      acc *= _PyHASH_XXPRIME_1;
  }
  acc += len ^ (_PyHASH_XXPRIME_5 ^ 3527539UL);
  if (acc == (Py_uhash_t)-1) return 1546275796;
  return acc;
  \<close>
  A lane of \<open>-1\<close> is the C convention for an exception raised by the item's hash; the
  model carries the exception as \<open>Inl\<close>, and no successful hash is \<open>-1\<close>.
\<close>

type_synonym Py_uhash_t = "64 word"

definition XXPRIME_1 :: Py_uhash_t where
  "XXPRIME_1 = 11400714785074694791"

definition XXPRIME_2 :: Py_uhash_t where
  "XXPRIME_2 = 14029467366897019727"

definition XXPRIME_5 :: Py_uhash_t where
  "XXPRIME_5 = 2870177450012600261"

text \<open>\<^verbatim>\<open>((x << 31) | (x >> 33))\<close>\<close>

definition XXROTATE :: "Py_uhash_t \<Rightarrow> Py_uhash_t" where
  "XXROTATE x = push_bit 31 x OR drop_bit 33 x"

fun tuplehash_loop :: "Py_uhash_t \<Rightarrow> (error + Py_uhash_t) list \<Rightarrow> error + Py_uhash_t" where
  "tuplehash_loop acc [] = Inr acc"
| "tuplehash_loop acc (item # items) =
     (case item of
        Inl e \<Rightarrow> Inl e
      | Inr lane \<Rightarrow> tuplehash_loop (XXROTATE (acc + lane * XXPRIME_2) * XXPRIME_1) items)"

text \<open>The two statements after the loop, for a tuple of \<open>len\<close> items.\<close>

definition tuplehash_finish :: "nat \<Rightarrow> Py_uhash_t \<Rightarrow> Py_uhash_t" where
  "tuplehash_finish len acc =
     (let acc' = acc + (word_of_nat len XOR (XXPRIME_5 XOR 3527539))
      in if acc' = - 1 then 1546275796 else acc')"

definition tuplehash :: "(error + Py_uhash_t) list \<Rightarrow> error + Py_uhash_t" where
  "tuplehash items =
     (case tuplehash_loop XXPRIME_5 items of
        Inl e \<Rightarrow> Inl e
      | Inr acc \<Rightarrow> Inr (tuplehash_finish (length items) acc))"

text \<open>
  The parts of the hash that the interpreter fixes per process or per object: the keyed
  hash of a non-empty string (randomised by the hash seed) and the identity-based hash of
  \<^verbatim>\<open>None\<close> and of objects of a class without \<^verbatim>\<open>__hash__\<close> (\<^verbatim>\<open>PlaceholderGroup\<close>). Both
  are parameters. CPython replaces a computed hash of \<open>-1\<close> by \<open>-2\<close>.
\<close>

record runtime =
  keyed_hash :: "string \<Rightarrow> Py_uhash_t"
  identity_hash :: "pyval \<Rightarrow> Py_uhash_t"

definition fix_hash :: "Py_uhash_t \<Rightarrow> Py_uhash_t" where
  "fix_hash x = (if x = - 1 then - 2 else x)"

definition str_hash :: "runtime \<Rightarrow> string \<Rightarrow> Py_uhash_t" where
  "str_hash rt s = (if s = [] then 0 else fix_hash (keyed_hash rt s))"

text \<open>The hash of an integer: its value modulo \<open>2 ^ 61 - 1\<close>, with the sign of the integer.\<close>

definition int_hash :: "int \<Rightarrow> Py_uhash_t" where
  "int_hash n = fix_hash (word_of_int (sgn n * (\<bar>n\<bar> mod (2 ^ 61 - 1))))"

text \<open>
  The builtin \<^verbatim>\<open>hash\<close>. Both namedtuple classes are tuples; \<^verbatim>\<open>TemplatePlaceholder\<close>
  inherits the tuple hash, \<^verbatim>\<open>GenericPlaceholder.__hash__\<close> hashes the pair of its fields,
  dicts and sets are unhashable.
\<close>

fun py_hash :: "runtime \<Rightarrow> pyval \<Rightarrow> error + Py_uhash_t" where
  "py_hash rt PNone = Inr (fix_hash (identity_hash rt PNone))"
| "py_hash rt (PStr s) = Inr (str_hash rt s)"
| "py_hash rt (PInt n) = Inr (int_hash n)"
| "py_hash rt (PTuple xs) = tuplehash (map (py_hash rt) xs)"
| "py_hash rt (PTemplate t) = tuplehash [Inr (str_hash rt (placeholder t))]"
| "py_hash rt (PGeneric (GenericPlaceholder p v)) =
     tuplehash [Inr (str_hash rt p), py_hash rt v]"
| "py_hash rt (PlaceholderGroup parts) =
     Inr (fix_hash (identity_hash rt (PlaceholderGroup parts)))"
| "py_hash rt (PDict es) = Inl TypeError"
| "py_hash rt (PSet xs) = Inl TypeError"

text \<open>
  \<^verbatim>\<open>
  def __hash__(self):
      return hash((self.placeholder, self.value))
  \<close>
\<close>

definition GenericPlaceholder_hash :: "runtime \<Rightarrow> pyval GenericPlaceholder \<Rightarrow> error + Py_uhash_t" where
  "GenericPlaceholder_hash rt self = py_hash rt (PTuple [PStr (gplaceholder self), gvalue self])"

section \<open>Properties of the string primitives\<close>

lemma rstrip_no_edge:
  assumes "s \<noteq> []" "last s \<notin> set chars"
  shows "rstrip chars s = s"
proof -
  from assms(1) obtain b bs where r: "rev s = b # bs" by (cases "rev s") auto
  then have "b = last s" using assms(1) by (metis hd_rev list.sel(1))
  with assms(2) have "dropWhile (\<lambda>c. c \<in> set chars) (b # bs) = b # bs" by simp
  then have "rev (dropWhile (\<lambda>c. c \<in> set chars) (rev s)) = rev (rev s)"
    unfolding r by (rule arg_cong)
  then show ?thesis by (simp add: rstrip_def)
qed

lemma rstrip_snoc:
  assumes "c \<in> set chars"
  shows "rstrip chars (s @ [c]) = rstrip chars s"
  using assms by (simp add: rstrip_def)

lemma lstrip_no_edge:
  assumes "s \<noteq> []" "hd s \<notin> set chars"
  shows "lstrip chars s = s"
  using assms by (cases s) (simp_all add: lstrip_def)

lemma lstrip_Cons:
  assumes "c \<in> set chars"
  shows "lstrip chars (c # s) = lstrip chars s"
  using assms by (simp add: lstrip_def)

section \<open>Properties of the placeholder types\<close>

lemma TemplatePlaceholder_new_str:
  "TemplatePlaceholder_new (PStr k) = Inr (TemplatePlaceholder (''<'' @ k @ ''>''))"
  by (simp add: TemplatePlaceholder_new_def str_concat_def)

text \<open>
  The kind is read back unchanged whenever it neither starts nor ends with an angle
  bracket; this covers the five kinds the module declares.
\<close>

lemma TemplatePlaceholder_type_roundtrip:
  assumes "k = [] \<or> (hd k \<notin> set ''<>'' \<and> last k \<notin> set ''<>'')"
  shows "TemplatePlaceholder_new_type (PStr k) = Inr k"
proof -
  have "strip ''<>'' (''<'' @ k @ ''>'') = k"
  proof (cases "k = []")
    case True
    then show ?thesis by (simp add: strip_def lstrip_def rstrip_def)
  next
    case False
    with assms have h: "hd k \<notin> set ''<>''" and l: "last k \<notin> set ''<>''" by auto
    have "lstrip ''<>'' (''<'' @ k @ ''>'') = lstrip ''<>'' (k @ ''>'')"
      by (simp add: lstrip_Cons)
    also have "\<dots> = k @ ''>''"
      using False h by (intro lstrip_no_edge) auto
    finally have "strip ''<>'' (''<'' @ k @ ''>'') = rstrip ''<>'' (k @ ''>'')"
      by (simp add: strip_def)
    also have "\<dots> = rstrip ''<>'' k" by (rule rstrip_snoc) simp
    also have "\<dots> = k" using False l by (rule rstrip_no_edge)
    finally show ?thesis .
  qed
  then show ?thesis
    by (simp add: TemplatePlaceholder_new_type_def TemplatePlaceholder_new_str
        TemplatePlaceholder_type_def)
qed

text \<open>
  Claim C3. Two generic placeholders built by the constructor compare equal whatever values
  they carry, and \<^verbatim>\<open>GenericPlaceholder.__eq__\<close> answers \<^verbatim>\<open>False\<close> for every operand
  that is not a generic placeholder.
\<close>

theorem GenericPlaceholder_eq_ignores_value:
  assumes "GenericPlaceholder_new v1 = Inr a" and "GenericPlaceholder_new v2 = Inr b"
  shows "GenericPlaceholder_eq a (PGeneric b)
       \<and> (\<not> isinstance_GenericPlaceholder other \<longrightarrow> \<not> GenericPlaceholder_eq a other)"
  using assms
  by (auto simp: GenericPlaceholder_new_def GenericPlaceholder_eq_def
      isinstance_GenericPlaceholder_def split: pyval.splits)

theorem GenericPlaceholder_eq_ignores_value_witness:
  "GenericPlaceholder_new (PStr ''saved_model.pb'')
     = Inr (GenericPlaceholder ''<generic>'' (PStr ''saved_model.pb''))
   \<and> GenericPlaceholder_new (PStr ''variables'')
     = Inr (GenericPlaceholder ''<generic>'' (PStr ''variables''))
   \<and> \<not> isinstance_GenericPlaceholder (PTuple [PStr ''<generic>'', PStr ''saved_model.pb''])
   \<and> GenericPlaceholder_eq (GenericPlaceholder ''<generic>'' (PStr ''saved_model.pb''))
        (PGeneric (GenericPlaceholder ''<generic>'' (PStr ''variables'')))
   \<and> \<not> GenericPlaceholder_eq (GenericPlaceholder ''<generic>'' (PStr ''saved_model.pb''))
        (PTuple [PStr ''<generic>'', PStr ''saved_model.pb''])"
proof -
  have a: "GenericPlaceholder_new (PStr ''saved_model.pb'')
             = Inr (GenericPlaceholder ''<generic>'' (PStr ''saved_model.pb''))"
    by (simp add: GenericPlaceholder_new_def)
  have b: "GenericPlaceholder_new (PStr ''variables'')
             = Inr (GenericPlaceholder ''<generic>'' (PStr ''variables''))"
    by (simp add: GenericPlaceholder_new_def)
  have c: "\<not> isinstance_GenericPlaceholder (PTuple [PStr ''<generic>'', PStr ''saved_model.pb''])"
    by (simp add: isinstance_GenericPlaceholder_def)
  show ?thesis
    using a b c
      GenericPlaceholder_eq_ignores_value
        [OF a b, of "PTuple [PStr ''<generic>'', PStr ''saved_model.pb'']"]
    by simp
qed

text \<open>
  Claim C4, as stated, fails: the constructors accept the empty string. Both calls return
  a placeholder object and no error.
\<close>

theorem placeholder_new_accepts_empty_string:
  "TemplatePlaceholder_new (PStr []) = Inr (TemplatePlaceholder ''<>'')
   \<and> GenericPlaceholder_new (PStr []) = Inr (GenericPlaceholder ''<generic>'' (PStr []))"
  by (simp add: TemplatePlaceholder_new_str GenericPlaceholder_new_def)

text \<open>
  Claim C4, amended. Neither constructor validates its argument. \<^verbatim>\<open>TemplatePlaceholder(k)\<close>
  for any string \<open>k\<close>, the empty one included, returns the placeholder whose field is
  \<^verbatim>\<open>"<" + k + ">"\<close>, and \<^verbatim>\<open>GenericPlaceholder(v)\<close> returns a placeholder for every value
  \<open>v\<close>, the empty string included. The only rejection at construction time is the
  \<^verbatim>\<open>TypeError\<close> that the concatenation \<^verbatim>\<open>"<" + kind\<close> raises for a kind that is \<^verbatim>\<open>None\<close>,
  an integer, a tuple, a dict, a set or one of the module's own placeholder objects; these
  are the values of the model that are not strings.
\<close>

theorem placeholder_new_validates_nothing:
  "TemplatePlaceholder_new (PStr k) = Inr (TemplatePlaceholder (''<'' @ k @ ''>''))
   \<and> GenericPlaceholder_new v = Inr (GenericPlaceholder ''<generic>'' v)
   \<and> (\<not> is_str kind \<longrightarrow> TemplatePlaceholder_new kind = Inl TypeError)"
  by (cases kind) (simp_all add: TemplatePlaceholder_new_str GenericPlaceholder_new_def
      is_str_def TemplatePlaceholder_new_def str_concat_def)

theorem placeholder_new_validates_nothing_witness:
  "\<not> is_str PNone
   \<and> TemplatePlaceholder_new (PStr []) = Inr (TemplatePlaceholder ''<>'')
   \<and> GenericPlaceholder_new (PStr []) = Inr (GenericPlaceholder ''<generic>'' (PStr []))
   \<and> TemplatePlaceholder_new PNone = Inl TypeError"
proof -
  have n: "\<not> is_str PNone" by (simp add: is_str_def)
  show ?thesis
    using n placeholder_new_validates_nothing [of "[]" "PStr []" PNone]
    by simp
qed

text \<open>
  Claim C5. \<^verbatim>\<open>TemplatePlaceholder(k).type\<close> is meant to give back \<open>k\<close>, but
  \<^verbatim>\<open>strip("<>")\<close> removes every leading and trailing angle bracket, not only the pair
  that the constructor added: for the kind \<^verbatim>\<open>"<a"\<close> the property returns \<^verbatim>\<open>"a"\<close>.
\<close>

theorem TemplatePlaceholder_type_strips_brackets_of_kind:
  "TemplatePlaceholder_new_type (PStr ''<a'') = Inr ''a''"
  by (simp add: TemplatePlaceholder_new_type_def TemplatePlaceholder_new_str
      TemplatePlaceholder_type_def strip_def lstrip_def rstrip_def)

text \<open>
  Two template placeholders built by the constructor compare equal exactly when they were
  built from the same kind string.
\<close>

lemma TemplatePlaceholder_eq_same_kind:
  assumes "TemplatePlaceholder_new (PStr k1) = Inr a"
    and "TemplatePlaceholder_new (PStr k2) = Inr b"
  shows "TemplatePlaceholder_eq a (PTemplate b) \<longleftrightarrow> k1 = k2"
  using assms by (auto simp: TemplatePlaceholder_new_str TemplatePlaceholder_eq_def)

lemma TemplatePlaceholder_call_str:
  "TemplatePlaceholder_call (PStr k) h
     = Inr (length h, h @ [PTemplate (TemplatePlaceholder (''<'' @ k @ ''>''))])"
  by (simp add: TemplatePlaceholder_call_def TemplatePlaceholder_new_str allocate_def)

text \<open>
  Claim C6, as stated, fails: identity is not determined by the kind tag. Two calls of the
  constructor with the kind \<^verbatim>\<open>"integer"\<close> return two objects that are equal and not
  identical.
\<close>

theorem TemplatePlaceholder_same_kind_not_identical:
  "TemplatePlaceholder_call (PStr ''integer'') []
     = Inr (0, [PTemplate (TemplatePlaceholder ''<integer>'')])
   \<and> TemplatePlaceholder_call (PStr ''integer'') [PTemplate (TemplatePlaceholder ''<integer>'')]
     = Inr (1, [PTemplate (TemplatePlaceholder ''<integer>''),
                PTemplate (TemplatePlaceholder ''<integer>'')])
   \<and> TemplatePlaceholder_eq_at
        [PTemplate (TemplatePlaceholder ''<integer>''),
         PTemplate (TemplatePlaceholder ''<integer>'')] 0 1
   \<and> \<not> py_is 0 1"
  by (simp add: TemplatePlaceholder_call_str TemplatePlaceholder_eq_at_def deref_def
      TemplatePlaceholder_eq_def py_is_def)

text \<open>
  Claim C6, amended. Equality of template placeholders is determined by the kind tag: two
  instances built one after the other compare equal exactly when they were built from the
  same kind string. Identity is not: every construction returns a new object, so the two
  instances are never the same object, whatever their kinds.
\<close>

theorem TemplatePlaceholder_equal_by_kind_never_identical:
  assumes "TemplatePlaceholder_call (PStr k1) h = Inr (a, h1)"
    and "TemplatePlaceholder_call (PStr k2) h1 = Inr (b, h2)"
  shows "(TemplatePlaceholder_eq_at h2 a b \<longleftrightarrow> k1 = k2) \<and> \<not> py_is a b"
proof -
  let ?t1 = "TemplatePlaceholder (''<'' @ k1 @ ''>'')"
  let ?t2 = "TemplatePlaceholder (''<'' @ k2 @ ''>'')"
  from assms(1) have a: "a = length h" and h1: "h1 = h @ [PTemplate ?t1]"
    by (simp_all add: TemplatePlaceholder_call_str)
  from assms(2) h1 have b: "b = Suc (length h)"
    and h2: "h2 = h @ [PTemplate ?t1, PTemplate ?t2]"
    by (simp_all add: TemplatePlaceholder_call_str)
  have da: "deref h2 a = Some (PTemplate ?t1)"
    by (simp add: deref_def a h2 nth_append)
  have db: "deref h2 b = Some (PTemplate ?t2)"
    by (simp add: deref_def b h2 nth_append)
  have "TemplatePlaceholder_eq_at h2 a b \<longleftrightarrow> TemplatePlaceholder_eq ?t1 (PTemplate ?t2)"
    by (simp add: TemplatePlaceholder_eq_at_def da db)
  also have "\<dots> \<longleftrightarrow> k1 = k2"
    by (rule TemplatePlaceholder_eq_same_kind) (rule TemplatePlaceholder_new_str)+
  finally have "TemplatePlaceholder_eq_at h2 a b \<longleftrightarrow> k1 = k2" .
  moreover have "\<not> py_is a b" by (simp add: py_is_def a b)
  ultimately show ?thesis by simp
qed

theorem TemplatePlaceholder_equal_by_kind_never_identical_witness:
  "TemplatePlaceholder_call (PStr ''integer'') []
     = Inr (0, [PTemplate (TemplatePlaceholder ''<integer>'')])
   \<and> TemplatePlaceholder_call (PStr ''any'') [PTemplate (TemplatePlaceholder ''<integer>'')]
     = Inr (1, [PTemplate (TemplatePlaceholder ''<integer>''),
                PTemplate (TemplatePlaceholder ''<any>'')])
   \<and> \<not> TemplatePlaceholder_eq_at
        [PTemplate (TemplatePlaceholder ''<integer>''),
         PTemplate (TemplatePlaceholder ''<any>'')] 0 1
   \<and> \<not> py_is 0 1"
proof -
  have c1: "TemplatePlaceholder_call (PStr ''integer'') []
              = Inr (0, [PTemplate (TemplatePlaceholder ''<integer>'')])"
    by (simp add: TemplatePlaceholder_call_str)
  have c2: "TemplatePlaceholder_call (PStr ''any'') [PTemplate (TemplatePlaceholder ''<integer>'')]
              = Inr (1, [PTemplate (TemplatePlaceholder ''<integer>''),
                         PTemplate (TemplatePlaceholder ''<any>'')])"
    by (simp add: TemplatePlaceholder_call_str)
  show ?thesis
    using c1 c2 TemplatePlaceholder_equal_by_kind_never_identical [OF c1 c2]
    by simp
qed

section \<open>Properties of the pattern registry\<close>

lemma getitem_registered:
  "registered pt \<Longrightarrow> \<exists>t. getitem model_template pt = Inr t"
  unfolding registered_def getitem_def
  by (cases "map_of model_template pt") (auto simp: map_of_eq_None_iff)

lemma getitem_unregistered:
  "\<not> registered pt \<Longrightarrow> getitem model_template pt = Inl (KeyError pt)"
  unfolding registered_def getitem_def
  by (cases "map_of model_template pt") (auto simp: map_of_eq_None_iff[symmetric])

lemma registered_iff:
  "registered pt \<longleftrightarrow>
     pt = PythonPredictorType \<or> pt = TensorFlowPredictorType \<or> pt = ONNXPredictorType"
  by (auto simp: registered_def model_template_def)

lemma model_template_non_empty:
  "getitem model_template pt = Inr t \<Longrightarrow> non_empty t"
  by (auto simp: getitem_def model_template_def non_empty_def split: if_splits)

text \<open>
  Claim C1. For every predictor type that is a key of \<^verbatim>\<open>model_template\<close>, both functions
  return a tree, the tree of \<^verbatim>\<open>dirs_model_pattern\<close> is the one-entry dict that maps
  \<^verbatim>\<open>UniquePlaceholder\<close> to the tree of \<^verbatim>\<open>model_pattern\<close>, and both trees are non-empty.
\<close>

theorem dirs_model_pattern_wraps_model_pattern:
  assumes "registered predictor_type"
  shows "\<exists>t. model_pattern predictor_type = Inr t
           \<and> dirs_model_pattern predictor_type = Inr (PDict [(PTemplate UniquePlaceholder, t)])
           \<and> non_empty t
           \<and> non_empty (PDict [(PTemplate UniquePlaceholder, t)])"
proof -
  from assms obtain t where t: "getitem model_template predictor_type = Inr t"
    using getitem_registered by blast
  then have "non_empty t" by (rule model_template_non_empty)
  moreover have "non_empty (PDict [(PTemplate UniquePlaceholder, t)])"
    by (simp add: non_empty_def)
  ultimately show ?thesis using t
    by (simp add: model_pattern_def dirs_model_pattern_def)
qed

theorem dirs_model_pattern_wraps_model_pattern_witness:
  "registered TensorFlowPredictorType \<and>
   (\<exists>t. model_pattern TensorFlowPredictorType = Inr t
           \<and> dirs_model_pattern TensorFlowPredictorType
               = Inr (PDict [(PTemplate UniquePlaceholder, t)])
           \<and> non_empty t
           \<and> non_empty (PDict [(PTemplate UniquePlaceholder, t)]))"
proof -
  have r: "registered TensorFlowPredictorType" by (simp add: registered_iff)
  show ?thesis using r dirs_model_pattern_wraps_model_pattern [OF r] by simp
qed

text \<open>
  Claim C2. For a predictor type that is not a key of \<^verbatim>\<open>model_template\<close>, both functions
  raise the \<^verbatim>\<open>KeyError\<close> of the lookup; neither returns a tree.
\<close>

theorem unregistered_predictor_type_raises:
  assumes "\<not> registered predictor_type"
  shows "model_pattern predictor_type = Inl (KeyError predictor_type)
       \<and> dirs_model_pattern predictor_type = Inl (KeyError predictor_type)"
  using getitem_unregistered [OF assms]
  by (simp add: model_pattern_def dirs_model_pattern_def)

theorem unregistered_predictor_type_raises_witness:
  "\<not> registered (OtherPredictorType ''tensorflow-neuron'')
   \<and> model_pattern (OtherPredictorType ''tensorflow-neuron'')
         = Inl (KeyError (OtherPredictorType ''tensorflow-neuron''))
   \<and> dirs_model_pattern (OtherPredictorType ''tensorflow-neuron'')
         = Inl (KeyError (OtherPredictorType ''tensorflow-neuron''))"
proof -
  have r: "\<not> registered (OtherPredictorType ''tensorflow-neuron'')"
    by (simp add: registered_iff)
  show ?thesis using r unregistered_predictor_type_raises [OF r] by simp
qed

text \<open>
  Claim C9. The tree that \<^verbatim>\<open>model_pattern\<close> returns for the Python predictor type is the
  one-entry dict from the integer placeholder to the any placeholder, where these are the
  placeholders built from the kinds \<^verbatim>\<open>"integer"\<close> and \<^verbatim>\<open>"any"\<close>.
\<close>

theorem model_pattern_python:
  "model_pattern PythonPredictorType
     = Inr (PDict [(PTemplate IntegerPlaceholder, PTemplate AnyPlaceholder)])
   \<and> TemplatePlaceholder_new (PStr ''integer'') = Inr IntegerPlaceholder
   \<and> TemplatePlaceholder_new (PStr ''any'') = Inr AnyPlaceholder
   \<and> TemplatePlaceholder_type IntegerPlaceholder = ''integer''
   \<and> TemplatePlaceholder_type AnyPlaceholder = ''any''"
  by (simp add: model_pattern_def getitem_def model_template_def IntegerPlaceholder_def
      AnyPlaceholder_def TemplatePlaceholder_new_str TemplatePlaceholder_type_def
      strip_def lstrip_def rstrip_def)

section \<open>Properties of the tree builders\<close>

lemma new_dict_returned: "returned (new_dict h) = Some (PDict [])"
  by (simp add: returned_def new_dict_def deref_def)

text \<open>
  Claim C7, as stated, fails: for the listing \<^verbatim>\<open>["a/b.txt"]\<close> the builder does not return
  the nested tree \<^verbatim>\<open>{"a": {"b.txt": None}}\<close> that the specification describes.
\<close>

theorem models_tree_not_nested:
  "returned (models_tree_from_s3_top_paths [''a/b.txt''] PythonPredictorType [])
     \<noteq> Some (spec_models_tree [''a/b.txt''])"
  by (simp add: models_tree_from_s3_top_paths_def new_dict_returned spec_models_tree_def)

text \<open>
  Claim C7, amended. Both builders return a new empty dict for every listing and every
  predictor type; this is the tree of the specification for the empty listing only.
\<close>

theorem models_tree_always_empty:
  "returned (models_tree_from_s3_top_paths s3_top_paths predictor_type h) = Some (PDict [])
   \<and> returned (models_tree_from_s3_path s3_path predictor_type h) = Some (PDict [])
   \<and> Some (spec_models_tree []) = returned (models_tree_from_s3_top_paths [] predictor_type h)"
  by (simp add: models_tree_from_s3_top_paths_def models_tree_from_s3_path_def
      new_dict_returned spec_models_tree_def)

text \<open>
  Claim C8. Two successive calls of the builder on the same listing return two distinct
  objects that hold equal trees; the second call leaves the result of the first one alone.
\<close>

theorem models_tree_repeatable:
  "(case models_tree_from_s3_top_paths s3_top_paths predictor_type h of
      (first, h1) \<Rightarrow>
        (case models_tree_from_s3_top_paths s3_top_paths predictor_type h1 of
           (second, h2) \<Rightarrow>
             first \<noteq> second \<and> deref h2 first \<noteq> None \<and> deref h2 first = deref h2 second))"
  by (simp add: models_tree_from_s3_top_paths_def new_dict_def deref_def nth_append)

section \<open>Properties of the hash of a generic placeholder\<close>

text \<open>The rotation is undone by the opposite rotation, so it loses nothing.\<close>

lemma XXROTATE_inverse: "drop_bit 31 (XXROTATE x) OR push_bit 33 (XXROTATE x) = x"
proof (rule bit_word_eqI)
  fix n
  assume "n < LENGTH(64)"
  then have n: "n < 64" by simp
  have rejoin: "33 \<le> n \<Longrightarrow> 33 + (n - 33) = n" by simp
  show "bit (drop_bit 31 (XXROTATE x) OR push_bit 33 (XXROTATE x)) n = bit x n"
  proof (cases "33 \<le> n")
    case True
    with n rejoin show ?thesis
      by (auto simp add: XXROTATE_def bit_simps dest: bit_imp_le_length)
  next
    case False
    with n show ?thesis
      by (auto simp add: XXROTATE_def bit_simps dest: bit_imp_le_length)
  qed
qed

lemma XXROTATE_inj:
  assumes "XXROTATE x = XXROTATE y"
  shows "x = y"
proof -
  have "x = drop_bit 31 (XXROTATE x) OR push_bit 33 (XXROTATE x)"
    by (simp only: XXROTATE_inverse)
  also have "\<dots> = drop_bit 31 (XXROTATE y) OR push_bit 33 (XXROTATE y)"
    by (simp only: assms)
  also have "\<dots> = y" by (simp only: XXROTATE_inverse)
  finally show ?thesis .
qed

text \<open>\<open>XXPRIME_1\<close> is odd, hence invertible modulo \<open>2 ^ 64\<close>.\<close>

lemma XXPRIME_1_inverse: "XXPRIME_1 * 614540362697595703 = 1"
  by (simp add: XXPRIME_1_def)

lemma mult_XXPRIME_1_inj:
  assumes "x * XXPRIME_1 = y * XXPRIME_1"
  shows "x = y"
proof -
  have "x = x * (XXPRIME_1 * 614540362697595703)" by (simp add: XXPRIME_1_inverse)
  also have "\<dots> = (x * XXPRIME_1) * 614540362697595703" by (simp add: mult.assoc)
  also have "\<dots> = (y * XXPRIME_1) * 614540362697595703" by (simp add: assms)
  also have "\<dots> = y * (XXPRIME_1 * 614540362697595703)" by (simp add: mult.assoc)
  also have "\<dots> = y" by (simp add: XXPRIME_1_inverse)
  finally show ?thesis .
qed

text \<open>One round of the loop keeps distinct lanes apart.\<close>

lemma lane_step_inj:
  assumes "XXROTATE (acc + a) * XXPRIME_1 = XXROTATE (acc + b) * XXPRIME_1"
  shows "a = b"
proof -
  from assms have "XXROTATE (acc + a) = XXROTATE (acc + b)" by (rule mult_XXPRIME_1_inj)
  then have "acc + a = acc + b" by (rule XXROTATE_inj)
  then show ?thesis by simp
qed

lemma lane_step_neq:
  assumes "a * XXPRIME_2 \<noteq> b * XXPRIME_2"
  shows "XXROTATE (acc + a * XXPRIME_2) * XXPRIME_1 \<noteq> XXROTATE (acc + b * XXPRIME_2) * XXPRIME_1"
proof
  assume "XXROTATE (acc + a * XXPRIME_2) * XXPRIME_1 = XXROTATE (acc + b * XXPRIME_2) * XXPRIME_1"
  then have "a * XXPRIME_2 = b * XXPRIME_2" by (rule lane_step_inj)
  with assms show False by (rule notE)
qed

lemma lanes_distinct:
  "(1::Py_uhash_t) * XXPRIME_2 \<noteq> 2 * XXPRIME_2"
  "(1::Py_uhash_t) * XXPRIME_2 \<noteq> 3 * XXPRIME_2"
  "(2::Py_uhash_t) * XXPRIME_2 \<noteq> 3 * XXPRIME_2"
  by (simp_all add: XXPRIME_2_def)

lemma int_hash_small: "int_hash 1 = 1" "int_hash 2 = 2" "int_hash 3 = 3"
  by (simp_all add: int_hash_def fix_hash_def)

text \<open>
  The last statement of the tuple hash merges only two accumulator values (the one that
  would give \<open>-1\<close> and the one that gives the replacement), so of three distinct
  accumulators at most two end in the same hash.
\<close>

lemma sentinel_differs:
  fixes a b c d m k :: "'a::ab_group_add"
  assumes "a \<noteq> b" "a \<noteq> c" "b \<noteq> c"
    and "(if a + d = m then k else a + d) = (if b + d = m then k else b + d)"
  shows "(if a + d = m then k else a + d) \<noteq> (if c + d = m then k else c + d)"
  using assms by (auto split: if_splits)

lemma tuplehash_finish_differs:
  assumes "a \<noteq> b" "a \<noteq> c" "b \<noteq> c"
    and "tuplehash_finish n a = tuplehash_finish n b"
  shows "tuplehash_finish n a \<noteq> tuplehash_finish n c"
  using assms unfolding tuplehash_finish_def Let_def by (rule sentinel_differs)

lemma GenericPlaceholder_hash_int:
  "GenericPlaceholder_hash rt (GenericPlaceholder p (PInt n)) =
     Inr (tuplehash_finish 2
            (XXROTATE (XXROTATE (XXPRIME_5 + str_hash rt p * XXPRIME_2) * XXPRIME_1
               + int_hash n * XXPRIME_2) * XXPRIME_1))"
  by (simp add: GenericPlaceholder_hash_def tuplehash_def numeral_2_eq_2)

lemma GenericPlaceholder_new_eq:
  "GenericPlaceholder_new v = Inr (GenericPlaceholder ''<generic>'' v)"
  by (simp add: GenericPlaceholder_new_def)

lemma GenericPlaceholder_eq_new:
  "GenericPlaceholder_eq (GenericPlaceholder ''<generic>'' v)
     (PGeneric (GenericPlaceholder ''<generic>'' v'))"
  by (simp add: GenericPlaceholder_eq_def)

text \<open>
  Claim C10. Whatever the per-process string hash is, there are two generic placeholders,
  built by the constructor, that compare equal and whose hashes both exist and differ:
  the placeholder holding the integer 1 and the one holding 2 or, if the hashes of these
  two happen to coincide, the one holding 3.
\<close>

theorem GenericPlaceholder_equal_with_unequal_hash:
  "\<exists>v1 v2 a b h1 h2.
      GenericPlaceholder_new v1 = Inr a \<and> GenericPlaceholder_new v2 = Inr b
    \<and> GenericPlaceholder_eq a (PGeneric b)
    \<and> GenericPlaceholder_hash rt a = Inr h1 \<and> GenericPlaceholder_hash rt b = Inr h2
    \<and> h1 \<noteq> h2"
proof -
  let ?g = "\<lambda>n. GenericPlaceholder ''<generic>'' (PInt n)"
  let ?acc = "\<lambda>n. XXROTATE (XXROTATE (XXPRIME_5 + str_hash rt ''<generic>'' * XXPRIME_2) * XXPRIME_1
               + n * XXPRIME_2) * XXPRIME_1"
  have h: "GenericPlaceholder_hash rt (?g 1) = Inr (tuplehash_finish 2 (?acc 1))"
    "GenericPlaceholder_hash rt (?g 2) = Inr (tuplehash_finish 2 (?acc 2))"
    "GenericPlaceholder_hash rt (?g 3) = Inr (tuplehash_finish 2 (?acc 3))"
    by (simp_all only: GenericPlaceholder_hash_int int_hash_small)
  have d: "?acc 1 \<noteq> ?acc 2" "?acc 1 \<noteq> ?acc 3" "?acc 2 \<noteq> ?acc 3"
    by (rule lane_step_neq, rule lanes_distinct)+
  have "\<exists>n h1 h2. GenericPlaceholder_hash rt (?g 1) = Inr h1
            \<and> GenericPlaceholder_hash rt (?g n) = Inr h2 \<and> h1 \<noteq> h2"
  proof (cases "tuplehash_finish 2 (?acc 1) = tuplehash_finish 2 (?acc 2)")
    case False
    with h(1,2) show ?thesis by blast
  next
    case True
    with d have "tuplehash_finish 2 (?acc 1) \<noteq> tuplehash_finish 2 (?acc 3)"
      by (rule tuplehash_finish_differs)
    with h(1,3) show ?thesis by blast
  qed
  then obtain n h1 h2 where
    "GenericPlaceholder_hash rt (?g 1) = Inr h1"
    "GenericPlaceholder_hash rt (?g n) = Inr h2" "h1 \<noteq> h2"
    by blast
  with GenericPlaceholder_new_eq [of "PInt 1"] GenericPlaceholder_new_eq [of "PInt n"]
    GenericPlaceholder_eq_new [of "PInt 1" "PInt n"]
  show ?thesis by blast
qed

end
